theory Spec2Isabelle
  imports Main "HOL-Library.Sublist"
begin

section \<open>Shared types (src/types/index.ts)\<close>

text \<open>
  JavaScript numbers that carry identifiers and line counts are modelled as \<open>int\<close>;
  strings as \<open>string\<close>. An optional field (\<open>commentId?\<close>) and \<open>string | null\<close> become
  \<open>option\<close>. \<open>PullRequestEvent.id\<close> is \<open>pr_id\<close>, and the fields \<open>repo\<close> and \<open>verdict\<close>
  of \<open>ReviewRecord\<close> are \<open>rec_repo\<close> and \<open>rec_verdict\<close>.
\<close>

record PullRequestEvent =
  pr_id :: int
  number :: int
  title :: string
  author :: string
  body :: "string option"
  repo :: string
  baseBranch :: string
  headBranch :: string
  diffUrl :: string
  htmlUrl :: string
  changedLines :: int
  createdAt :: string

subsection \<open>Values that come out of \<open>JSON.parse\<close>\<close>

text \<open>
  The reply of the inference service is parsed with \<open>JSON.parse\<close> and cast to
  \<open>ReviewResult\<close> without a check, so at run time a review result is whatever JSON value
  the reply denotes. \<open>json\<close> is the type of these values; \<open>json option\<close> adds
  \<open>undefined\<close> (\<open>None\<close>), the value of a property that is not there. The numbers of a
  reply are never computed with, so their type is left open. An object is the list of
  its own properties, read with \<open>map_of\<close>. A thrown value is an \<open>exn\<close>; a computation
  that may throw returns \<open>Inl\<close> of the thrown value or \<open>Inr\<close> of its result.
\<close>

datatype exn = SyntaxError | TypeError | RequestError

typedecl double

datatype json =
    JNull
  | JBool bool
  | JNumber double
  | JString string
  | JArray "json list"
  | JObject "(string \<times> json) list"

definition member :: "json \<Rightarrow> string \<Rightarrow> exn + json option" where
  \<comment> \<open>\<open>v.name\<close> for a name that no built-in prototype defines (\<open>commentBody\<close>, \<open>verdict\<close>,
      \<open>summary\<close>): reading a property of \<open>null\<close> throws, a primitive or an array has none\<close>
  "member v name =
     (case v of
        JNull \<Rightarrow> Inl TypeError
      | JObject properties \<Rightarrow> Inr (map_of properties name)
      | _ \<Rightarrow> Inr None)"

fun join :: "(exn + string) list \<Rightarrow> exn + string" where
  \<comment> \<open>the elements of an array, converted from left to right and separated by commas\<close>
  "join [] = Inr []"
| "join [x] = x"
| "join (x # y # ys) =
     (case x of
        Inl err \<Rightarrow> Inl err
      | Inr s \<Rightarrow> (case join (y # ys) of Inl err \<Rightarrow> Inl err | Inr t \<Rightarrow> Inr (s @ '','' @ t)))"

fun ToString :: "(double \<Rightarrow> string) \<Rightarrow> json \<Rightarrow> exn + string" where
  \<comment> \<open>The conversion a template literal or a property key applies. \<open>num\<close> converts a number.
      An array joins its elements, \<open>null\<close> elements as the empty string. An object that
      has an own property \<open>toString\<close> (never callable in a parsed value) cannot be converted;
      any other object takes \<open>Object.prototype.toString\<close>.\<close>
  "ToString num JNull = Inr ''null''"
| "ToString num (JBool b) = Inr (if b then ''true'' else ''false'')"
| "ToString num (JNumber d) = Inr (num d)"
| "ToString num (JString s) = Inr s"
| "ToString num (JArray xs) =
     join (map (\<lambda>x. case x of JNull \<Rightarrow> Inr [] | _ \<Rightarrow> ToString num x) xs)"
| "ToString num (JObject properties) =
     (if ''toString'' \<in> fst ` set properties then Inl TypeError else Inr ''[object Object]'')"

definition ToString_value :: "(double \<Rightarrow> string) \<Rightarrow> json option \<Rightarrow> exn + string" where
  "ToString_value num v = (case v of None \<Rightarrow> Inr ''undefined'' | Some j \<Rightarrow> ToString num j)"

definition is_string :: "json option \<Rightarrow> bool" where
  "is_string v = (case v of Some (JString s) \<Rightarrow> True | _ \<Rightarrow> False)"

definition one_of :: "string list \<Rightarrow> json option \<Rightarrow> bool" where
  "one_of names v = (case v of Some (JString s) \<Rightarrow> s \<in> set names | _ \<Rightarrow> False)"

definition is_ReviewFinding :: "json \<Rightarrow> bool" where
  \<comment> \<open>the interface \<open>ReviewFinding\<close>, read as a property of a run-time value\<close>
  "is_ReviewFinding v =
     (case v of
        JObject p \<Rightarrow>
          (map_of p ''file'' = None \<or> is_string (map_of p ''file'')) \<and>
          is_string (map_of p ''category'') \<and>
          is_string (map_of p ''description'') \<and>
          is_string (map_of p ''suggestion'') \<and>
          one_of [''low'', ''medium'', ''high''] (map_of p ''severity'')
      | _ \<Rightarrow> False)"

definition is_ReviewResult :: "json \<Rightarrow> bool" where
  \<comment> \<open>the interface \<open>ReviewResult\<close>, read as a property of a run-time value\<close>
  "is_ReviewResult v =
     (case v of
        JObject p \<Rightarrow>
          is_string (map_of p ''summary'') \<and>
          one_of [''approve'', ''request_changes'', ''comment''] (map_of p ''verdict'') \<and>
          one_of [''low'', ''medium'', ''high''] (map_of p ''severity'') \<and>
          (case map_of p ''findings'' of
             Some (JArray fs) \<Rightarrow> list_all is_ReviewFinding fs | _ \<Rightarrow> False) \<and>
          (case map_of p ''positives'' of
             Some (JArray ps) \<Rightarrow> list_all (\<lambda>x. is_string (Some x)) ps | _ \<Rightarrow> False) \<and>
          is_string (map_of p ''commentBody'')
      | _ \<Rightarrow> False)"

subsection \<open>Records of completed reviews, tiers\<close>

text \<open>
  \<open>rec_verdict\<close> holds \<open>reviewResult.verdict\<close> as it was read, so it is a value of the
  kind above and not only one of the three verdicts.
\<close>

record ReviewRecord =
  prId :: int
  prNumber :: int
  rec_repo :: string
  reviewedAt :: string
  rec_verdict :: "json option"
  commentId :: "int option"

datatype ReviewTier = quick | standard | deep

definition getReviewTier :: "int \<Rightarrow> ReviewTier" where
  "getReviewTier changedLines' =
     (if changedLines' \<le> 50 then quick
      else if changedLines' \<le> 300 then standard
      else deep)"

section \<open>Durable review records (src/components/state.tsx)\<close>

text \<open>
  The module keeps two nullable references, \<open>_setOutputs\<close> and \<open>_reviews\<close>. The
  functions they hold once set are fixed (the hook's setter, and the accessor
  \<open>() => state.reviews() ?? []\<close>), so the model records only whether each is non-null.
  \<open>outputs\<close> is the persisted output of the \<open>useAsyncOutput\<close> hook as the setter's
  callback sees it: \<open>None\<close> when there is no previous \<open>reviews\<close> value (\<open>prev\<close> is
  null, or \<open>prev.reviews\<close> is undefined), \<open>Some rs\<close> otherwise. The accessor reads the
  same value. Writes to the console are not part of the state.
\<close>

record StateModule =
  setOutputs_ref :: bool
  reviews_ref :: bool
  outputs :: "ReviewRecord list option"

definition reviews_of :: "ReviewRecord list option \<Rightarrow> ReviewRecord list" where
  \<comment> \<open>\<open>prev?.reviews ?? []\<close>, and likewise \<open>state.reviews() ?? []\<close>\<close>
  "reviews_of prev = (case prev of None \<Rightarrow> [] | Some rs \<Rightarrow> rs)"

definition module_loaded :: "ReviewRecord list option \<Rightarrow> StateModule" where
  \<comment> \<open>the module after its top-level \<open>let\<close>s ran: both references null\<close>
  "module_loaded prev = \<lparr>setOutputs_ref = False, reviews_ref = False, outputs = prev\<rparr>"

definition StateManager_render :: "StateModule \<Rightarrow> StateModule" where
  \<comment> \<open>the synchronous part of \<open>StateManager\<close>: \<open>_reviews = () => ...\<close>\<close>
  "StateManager_render st = st\<lparr>reviews_ref := True\<rparr>"

definition StateManager_handler :: "StateModule \<Rightarrow> StateModule" where
  \<comment> \<open>the hook's handler: restore \<open>reviews\<close>, then \<open>_setOutputs = setOutputs\<close>\<close>
  "StateManager_handler st =
     st\<lparr>outputs := Some (reviews_of (outputs st)), setOutputs_ref := True\<rparr>"

definition StateManager_cleanup :: "StateModule \<Rightarrow> StateModule" where
  "StateManager_cleanup st = st\<lparr>setOutputs_ref := False, reviews_ref := False\<rparr>"

definition isReviewed :: "StateModule \<Rightarrow> int \<Rightarrow> bool" where
  "isReviewed st prId' =
     (if \<not> reviews_ref st then False
      else list_ex (\<lambda>r. prId r = prId') (reviews_of (outputs st)))"

definition recordReview_update :: "ReviewRecord \<Rightarrow> ReviewRecord list option \<Rightarrow> ReviewRecord list option" where
  \<comment> \<open>the callback handed to the setter: \<open>prev => ({ reviews: [...(prev?.reviews ?? []), record] })\<close>\<close>
  "recordReview_update record prev = Some (reviews_of prev @ [record])"

definition recordReview :: "ReviewRecord \<Rightarrow> StateModule \<Rightarrow> StateModule" where
  \<comment> \<open>returns \<open>void\<close>: the caller sees nothing of which branch ran\<close>
  "recordReview record st =
     (if \<not> setOutputs_ref st then st
      else st\<lparr>outputs := recordReview_update record (outputs st)\<rparr>)"

definition getReviewHistory :: "StateModule \<Rightarrow> ReviewRecord list" where
  "getReviewHistory st = (if \<not> reviews_ref st then [] else reviews_of (outputs st))"

section \<open>The pending list and admission (src/app.tsx)\<close>

text \<open>
  The \<open>pendingPRs\<close> signal and the module of the previous section are the shared state of the
  application.
\<close>

record App =
  store :: StateModule
  pendingPRs :: "PullRequestEvent list"

definition handlePullRequest :: "PullRequestEvent \<Rightarrow> App \<Rightarrow> App" where
  "handlePullRequest event a =
     (if isReviewed (store a) (pr_id event) then a
      else if list_ex (\<lambda>pr. pr_id pr = pr_id event) (pendingPRs a) then a
      else a\<lparr>pendingPRs := pendingPRs a @ [event]\<rparr>)"

definition handleReviewComplete :: "int \<Rightarrow> App \<Rightarrow> App" where
  "handleReviewComplete prId' a =
     a\<lparr>pendingPRs := filter (\<lambda>pr. pr_id pr \<noteq> prId') (pendingPRs a)\<rparr>"

definition rendered_reviews :: "App \<Rightarrow> PullRequestEvent list" where
  \<comment> \<open>the \<open>ReviewPR\<close> instances that \<open>For each pendingPRs\<close> / \<open>Show when !isReviewed\<close> keeps mounted\<close>
  "rendered_reviews a = filter (\<lambda>pr. \<not> isReviewed (store a) (pr_id pr)) (pendingPRs a)"

datatype Action = Admit PullRequestEvent | Commit ReviewRecord | Complete int

fun act :: "App \<Rightarrow> Action \<Rightarrow> App" where
  "act a (Admit e) = handlePullRequest e a"
| "act a (Commit r) = a\<lparr>store := recordReview r (store a)\<rparr>"
| "act a (Complete i) = handleReviewComplete i a"

section \<open>GitHub access (src/components/github.tsx)\<close>

text \<open>
  Calls that leave the process (Octokit, \<open>fetch\<close>, the inference client, \<open>JSON.parse\<close>,
  the clock) are parameters: each is a function that returns \<open>Inr\<close> of its result or
  \<open>Inl\<close> of the value it throws. An awaited promise is the value it resolves to.
  The last argument of \<open>postReviewComment\<close> is declared as one of three strings; what
  arrives is \<open>verdictMap[key]\<close> for some key, which for any other key is \<open>undefined\<close> or a
  member inherited from \<open>Object.prototype\<close> (\<open>Not_an_event key\<close>).
\<close>

datatype ReviewEvent = APPROVE | REQUEST_CHANGES | COMMENT

datatype EventValue = Event ReviewEvent | Not_an_event string

record Response =
  ok :: bool
  response_text :: "exn + string"

record GitHubReview =
  user_login :: "string option"    \<comment> \<open>\<open>r.user?.login\<close>\<close>

record Octokit =
  users_getAuthenticated :: "exn + string"
  pulls_createReview :: "string option \<Rightarrow> string option \<Rightarrow> int \<Rightarrow> string \<Rightarrow> EventValue \<Rightarrow> exn + int"
  pulls_listReviews :: "string option \<Rightarrow> string option \<Rightarrow> int \<Rightarrow> exn + GitHubReview list"

record GitHubAPI =
  fetchDiff :: "string \<Rightarrow> string"
  postReviewComment :: "string \<Rightarrow> int \<Rightarrow> string \<Rightarrow> EventValue \<Rightarrow> int"
  botAlreadyCommented :: "string \<Rightarrow> int \<Rightarrow> bool"

fun split_on :: "char \<Rightarrow> string \<Rightarrow> string list" where
  \<comment> \<open>\<open>s.split(c)\<close> for a one-character separator\<close>
  "split_on c [] = [[]]"
| "split_on c (x # xs) =
     (if x = c then [] # split_on c xs
      else (case split_on c xs of [] \<Rightarrow> [[x]] | p # ps \<Rightarrow> (x # p) # ps))"

definition element :: "'a list \<Rightarrow> nat \<Rightarrow> 'a option" where
  \<comment> \<open>array destructuring: a missing position is \<open>undefined\<close>\<close>
  "element xs i = (if i < length xs then Some (xs ! i) else None)"

definition GitHub_onMount :: "Octokit \<Rightarrow> string" where
  \<comment> \<open>the value of \<open>botLogin\<close> after \<open>onMount\<close>; it is the empty string before\<close>
  "GitHub_onMount octokit =
     (case users_getAuthenticated octokit of Inr login \<Rightarrow> login | Inl err \<Rightarrow> [])"

definition GitHub_fetchDiff :: "(string \<Rightarrow> exn + Response) \<Rightarrow> string \<Rightarrow> string" where
  "GitHub_fetchDiff fetch diffUrl' =
     (case fetch diffUrl' of
        Inl err \<Rightarrow> []
      | Inr response \<Rightarrow>
          if \<not> ok response then []
          else (case response_text response of Inl err \<Rightarrow> [] | Inr diff \<Rightarrow> diff))"

definition GitHub_postReviewComment ::
  "Octokit \<Rightarrow> string \<Rightarrow> int \<Rightarrow> string \<Rightarrow> EventValue \<Rightarrow> int" where
  "GitHub_postReviewComment octokit repo' prNumber' body' verdict' =
     (let parts = split_on (CHR ''/'') repo'; owner = element parts 0; repoName = element parts 1
      in case pulls_createReview octokit owner repoName prNumber' body' verdict' of
           Inr data_id \<Rightarrow> data_id
         | Inl err \<Rightarrow> - 1)"

definition GitHub_botAlreadyCommented :: "Octokit \<Rightarrow> string \<Rightarrow> string \<Rightarrow> int \<Rightarrow> bool" where
  "GitHub_botAlreadyCommented octokit botLogin repo' prNumber' =
     (if botLogin = [] then False
      else let parts = split_on (CHR ''/'') repo'; owner = element parts 0; repoName = element parts 1
        in case pulls_listReviews octokit owner repoName prNumber' of
             Inr reviews \<Rightarrow> list_ex (\<lambda>r. user_login r = Some botLogin) reviews
           | Inl err \<Rightarrow> False)"

definition GitHub :: "Octokit \<Rightarrow> (string \<Rightarrow> exn + Response) \<Rightarrow> string \<Rightarrow> GitHubAPI" where
  \<comment> \<open>the \<open>api\<close> object; \<open>botLogin\<close> is the variable's value when a method is called\<close>
  "GitHub octokit fetch botLogin =
     \<lparr>fetchDiff = GitHub_fetchDiff fetch,
      postReviewComment = GitHub_postReviewComment octokit,
      botAlreadyCommented = GitHub_botAlreadyCommented octokit botLogin\<rparr>"

section \<open>One review (src/components/review-pr.tsx)\<close>

text \<open>
  Characters are 8-bit code units. \<open>trim\<close> removes the white space and line terminators
  of that range: U+0009 to U+000D, U+0020 and U+00A0.
\<close>

definition skip_newline :: "string \<Rightarrow> string" where
  \<comment> \<open>the optional line feed at the end of both patterns\<close>
  "skip_newline s = (case s of [] \<Rightarrow> [] | c # cs \<Rightarrow> if c = CHR 0x0A then cs else c # cs)"

function replace_fence :: "string \<Rightarrow> string \<Rightarrow> string" where
  \<comment> \<open>\<open>s.replace\<close> with the global pattern \<open>p\<close> followed by an optional line feed, for a
      literal, non-empty \<open>p\<close>, and the empty replacement: matches are taken left to right\<close>
  "replace_fence p s =
     (if s = [] \<or> p = [] then s
      else if prefix p s then replace_fence p (skip_newline (drop (length p) s))
      else hd s # replace_fence p (tl s))"
  by pat_completeness auto
termination
proof (relation "measure (\<lambda>(p, s). length s)")
  fix p s :: string
  assume nonempty: "\<not> (s = [] \<or> p = [])"
  have shorter: "length (skip_newline xs) \<le> length xs" for xs
    by (simp add: skip_newline_def split: list.split)
  have "length (skip_newline (drop (length p) s)) \<le> length (drop (length p) s)"
    by (rule shorter)
  also have "\<dots> < length s"
    using nonempty by simp
  finally show "((p, skip_newline (drop (length p) s)), (p, s)) \<in> measure (\<lambda>(p, s). length s)"
    by simp
  show "((p, tl s), (p, s)) \<in> measure (\<lambda>(p, s). length s)"
    using nonempty by simp
qed simp

definition whitespace :: "char \<Rightarrow> bool" where
  "whitespace c \<longleftrightarrow> c \<in> set [CHR 0x09, CHR 0x0A, CHR 0x0B, CHR 0x0C, CHR 0x0D, CHR 0x20, CHR 0xA0]"

definition trim :: "string \<Rightarrow> string" where
  "trim s = rev (dropWhile whitespace (rev (dropWhile whitespace s)))"

definition cleaned :: "string \<Rightarrow> string" where
  \<comment> \<open>both \<open>replace\<close> calls, first the fence with \<open>json\<close>, then the bare fence, and \<open>trim\<close>\<close>
  "cleaned raw = trim (replace_fence ''```'' (replace_fence ''```json'' raw))"

definition fallback :: "string \<Rightarrow> PullRequestEvent \<Rightarrow> json" where
  \<comment> \<open>the object literal of the \<open>catch\<close> branch\<close>
  "fallback raw pr' =
     JObject
      [(''summary'', JString (''Review for '' @ [CHR 0x22] @ title pr' @ [CHR 0x22])),
       (''verdict'', JString ''comment''),
       (''severity'', JString ''low''),
       (''findings'', JArray []),
       (''positives'', JArray []),
       (''commentBody'', JString
          (''I reviewed this PR but encountered an issue formatting the structured output. Here's the raw analysis:''
           @ [CHR 0x0A, CHR 0x0A] @ raw))]"

definition parseReviewResult ::
  "(string \<Rightarrow> exn + json) \<Rightarrow> string \<Rightarrow> PullRequestEvent \<Rightarrow> exn + json" where
  \<comment> \<open>\<open>JSON_parse s\<close> is \<open>JSON.parse(s)\<close>: the value the text denotes, or the \<open>SyntaxError\<close>
      thrown. The cast \<open>as ReviewResult\<close> does nothing at run time. \<open>Inr\<close> is a normal
      return, \<open>Inl\<close> would be an exception that escapes.\<close>
  "parseReviewResult JSON_parse raw pr' =
     (case JSON_parse (cleaned raw) of
        Inr parsed \<Rightarrow> Inr parsed
      | Inl err \<Rightarrow> Inr (fallback raw pr'))"

datatype ContentBlock = TextBlock string | OtherBlock

record MessageRequest =
  model :: string
  max_tokens :: int
  system :: string
  user_content :: string

record Services =
  JSON_parse :: "string \<Rightarrow> exn + json"
  Number_toString :: "double \<Rightarrow> string"
  messages_create :: "MessageRequest \<Rightarrow> exn + ContentBlock list"
      \<comment> \<open>\<open>new Anthropic(...)\<close> followed by \<open>client.messages.create\<close>; \<open>Inr\<close> of \<open>message.content\<close>\<close>
  now_ISO :: string
      \<comment> \<open>\<open>new Date().toISOString()\<close>\<close>
  buildReviewPrompt :: "PullRequestEvent \<Rightarrow> string \<Rightarrow> ReviewTier \<Rightarrow> string \<times> string"
      \<comment> \<open>the prompt builder of src/prompts/review.ts: strings in, two strings out\<close>
  comment_header :: "ReviewTier \<Rightarrow> string"
  comment_footer :: string
      \<comment> \<open>the fixed text of \<open>formatGitHubComment\<close> before and after the body\<close>

record ReviewPRProps =
  pr :: PullRequestEvent
  github :: GitHubAPI
  onComplete :: "int \<Rightarrow> App \<Rightarrow> App"

definition formatGitHubComment :: "Services \<Rightarrow> int \<Rightarrow> ReviewTier \<Rightarrow> json option \<Rightarrow> exn + string" where
  \<comment> \<open>src/prompts/review.ts: one template literal, the heading with the tier's badge, the
      body converted to a string, the footer; \<open>prNumber\<close> is not used\<close>
  "formatGitHubComment sv prNumber' tier rawCommentBody =
     (case ToString_value (Number_toString sv) rawCommentBody of
        Inl err \<Rightarrow> Inl err
      | Inr s \<Rightarrow> Inr (comment_header sv tier @ s @ comment_footer sv))"

definition verdictMap :: "(double \<Rightarrow> string) \<Rightarrow> json option \<Rightarrow> exn + EventValue" where
  \<comment> \<open>\<open>verdictMap[v]\<close>: the key is \<open>v\<close> converted to a string\<close>
  "verdictMap num v =
     (case ToString_value num v of
        Inl err \<Rightarrow> Inl err
      | Inr key \<Rightarrow>
          Inr (if key = ''approve'' then Event APPROVE
               else if key = ''request_changes'' then Event REQUEST_CHANGES
               else if key = ''comment'' then Event COMMENT
               else Not_an_event key))"

definition log_reviewed :: "(double \<Rightarrow> string) \<Rightarrow> json \<Rightarrow> exn + unit" where
  \<comment> \<open>the \<open>console.log\<close> between \<open>recordReview\<close> and \<open>onComplete\<close>, for what it can throw:
      \<open>reviewResult.verdict.toUpperCase()\<close> needs a string, then \<open>reviewResult.summary\<close> is
      converted to a string\<close>
  "log_reviewed num reviewResult =
     (case member reviewResult ''verdict'' of
        Inl err \<Rightarrow> Inl err
      | Inr v \<Rightarrow>
          (case v of
             Some (JString s) \<Rightarrow>
               (case member reviewResult ''summary'' of
                  Inl err \<Rightarrow> Inl err
                | Inr summary' \<Rightarrow>
                    (case ToString_value num summary' of Inl err \<Rightarrow> Inl err | Inr t \<Rightarrow> Inr ()))
           | _ \<Rightarrow> Inl TypeError))"

definition message_request :: "ReviewTier \<Rightarrow> string \<Rightarrow> string \<Rightarrow> MessageRequest" where
  \<comment> \<open>the argument of \<open>client.messages.create\<close>\<close>
  "message_request tier system' user' =
     \<lparr>model = ''claude-opus-4-6'',
      max_tokens = (if tier = deep then 4096 else if tier = standard then 2048 else 1024),
      system = system', user_content = user'\<rparr>"

definition call_Claude :: "Services \<Rightarrow> PullRequestEvent \<Rightarrow> ReviewTier \<Rightarrow> string \<Rightarrow> string \<Rightarrow> exn + json" where
  \<comment> \<open>the body of the \<open>try\<close> of step 5; \<open>message.content[0].type\<close> on an empty array throws\<close>
  "call_Claude sv pr' tier system' user' =
     (case messages_create sv (message_request tier system' user') of
        Inl err \<Rightarrow> Inl err
      | Inr content \<Rightarrow>
          (case content of
             [] \<Rightarrow> Inl TypeError
           | block # blocks \<Rightarrow>
               parseReviewResult (JSON_parse sv)
                 (case block of TextBlock t \<Rightarrow> t | OtherBlock \<Rightarrow> []) pr'))"

datatype Call =
    Call_botAlreadyCommented
  | Call_fetchDiff
  | Call_messages_create
  | Call_postReviewComment string EventValue
  | Call_recordReview ReviewRecord
  | Call_onComplete int
  | Thrown exn

definition threw :: "Call list \<Rightarrow> bool" where
  "threw calls = list_ex (\<lambda>c. case c of Thrown err \<Rightarrow> True | _ \<Rightarrow> False) calls"

definition ReviewPR_publish ::
  "Services \<Rightarrow> ReviewPRProps \<Rightarrow> ReviewTier \<Rightarrow> json \<Rightarrow> App \<Rightarrow> Call list \<times> App" where
  \<comment> \<open>Steps 6 and 7 and the final signal, all outside the \<open>try\<close>: an exception here ends the
      callback at once (\<open>Thrown\<close>), with the state as it is at that point.\<close>
  "ReviewPR_publish sv props tier reviewResult a =
     (let pr' = pr props in
      case member reviewResult ''commentBody'' of
        Inl err \<Rightarrow> ([Thrown err], a)
      | Inr rawCommentBody \<Rightarrow>
      case formatGitHubComment sv (number pr') tier rawCommentBody of
        Inl err \<Rightarrow> ([Thrown err], a)
      | Inr commentBody' \<Rightarrow>
      case member reviewResult ''verdict'' of
        Inl err \<Rightarrow> ([Thrown err], a)
      | Inr verdict' \<Rightarrow>
      case verdictMap (Number_toString sv) verdict' of
        Inl err \<Rightarrow> ([Thrown err], a)
      | Inr event \<Rightarrow>
          let commentId' = postReviewComment (github props) (repo pr') (number pr') commentBody' event;
              record = \<lparr>prId = pr_id pr', prNumber = number pr', rec_repo = repo pr',
                        reviewedAt = now_ISO sv, rec_verdict = verdict',
                        commentId = (if commentId' > 0 then Some commentId' else None)\<rparr>;
              a' = a\<lparr>store := recordReview record (store a)\<rparr>
          in case log_reviewed (Number_toString sv) reviewResult of
               Inl err \<Rightarrow>
                 ([Call_postReviewComment commentBody' event, Call_recordReview record, Thrown err], a')
             | Inr logged \<Rightarrow>
                 ([Call_postReviewComment commentBody' event, Call_recordReview record,
                   Call_onComplete (pr_id pr')],
                  onComplete props (pr_id pr') a'))"

definition ReviewPR :: "Services \<Rightarrow> ReviewPRProps \<Rightarrow> App \<Rightarrow> Call list \<times> App" where
  \<comment> \<open>The \<open>onMount\<close> callback. The shared state is touched only after the last \<open>await\<close> of
      the path taken, so the argument is the state at that moment; the first component
      lists the calls made, in order, and ends with \<open>Thrown\<close> when the callback throws.\<close>
  "ReviewPR sv props a =
     (let pr' = pr props in
      if botAlreadyCommented (github props) (repo pr') (number pr')
      then ([Call_botAlreadyCommented, Call_onComplete (pr_id pr')],
            onComplete props (pr_id pr') a)
      else
        let diff = fetchDiff (github props) (diffUrl pr') in
        if diff = []
        then ([Call_botAlreadyCommented, Call_fetchDiff, Call_onComplete (pr_id pr')],
              onComplete props (pr_id pr') a)
        else
          let tier = getReviewTier (changedLines pr');
              (system', user') = buildReviewPrompt sv pr' diff tier
          in case call_Claude sv pr' tier system' user' of
               Inl err \<Rightarrow>
                 ([Call_botAlreadyCommented, Call_fetchDiff, Call_messages_create,
                   Call_onComplete (pr_id pr')],
                  onComplete props (pr_id pr') a)
             | Inr reviewResult \<Rightarrow>
                 (case ReviewPR_publish sv props tier reviewResult a of
                    (calls, a') \<Rightarrow>
                      ([Call_botAlreadyCommented, Call_fetchDiff, Call_messages_create] @ calls, a')))"

section \<open>Concrete values used in the examples\<close>

definition record7 :: ReviewRecord where
  "record7 = \<lparr>prId = 7, prNumber = 42, rec_repo = ''octo/demo'',
     reviewedAt = ''2024-01-01T00:00:00.000Z'', rec_verdict = Some (JString ''approve''), commentId = Some 900\<rparr>"

definition event7 :: PullRequestEvent where
  "event7 = \<lparr>pr_id = 7, number = 42, title = ''Fix login'', author = ''alice'',
     body = None, repo = ''octo/demo'', baseBranch = ''main'', headBranch = ''fix'',
     diffUrl = ''https://example.test/42.diff'', htmlUrl = ''https://example.test/42'',
     changedLines = 10, createdAt = ''2024-01-01T00:00:00Z''\<rparr>"

definition mounted_empty :: StateModule where
  \<comment> \<open>first run, after \<open>StateManager\<close> rendered and its handler ran\<close>
  "mounted_empty = StateManager_handler (StateManager_render (module_loaded None))"

definition app_fresh :: App where
  "app_fresh = \<lparr>store = mounted_empty, pendingPRs = []\<rparr>"

definition app_reviewed7 :: App where
  "app_reviewed7 = \<lparr>store = recordReview record7 mounted_empty, pendingPRs = []\<rparr>"

definition app_pending7 :: App where
  "app_pending7 = \<lparr>store = mounted_empty, pendingPRs = [event7]\<rparr>"

definition app_unmounted7 :: App where
  \<comment> \<open>a restart: record 7 is in the persisted output, \<open>StateManager\<close> has not run yet\<close>
  "app_unmounted7 = \<lparr>store = module_loaded (Some [record7]), pendingPRs = []\<rparr>"

definition app_unready7 :: App where
  \<comment> \<open>event 7 is in flight when \<open>StateManager\<close> is cleaned up\<close>
  "app_unready7 = \<lparr>store = StateManager_cleanup mounted_empty, pendingPRs = [event7]\<rparr>"

definition octokit_ok :: Octokit where
  "octokit_ok =
     \<lparr>users_getAuthenticated = Inr ''review-bot'',
      pulls_createReview = (\<lambda>owner repoName n b v. Inr 900),
      pulls_listReviews = (\<lambda>owner repoName n. Inr [])\<rparr>"

definition octokit_commented :: Octokit where
  "octokit_commented =
     octokit_ok\<lparr>pulls_listReviews := (\<lambda>owner repoName n. Inr [\<lparr>user_login = Some ''review-bot''\<rparr>])\<rparr>"

definition octokit_post_fails :: Octokit where
  "octokit_post_fails =
     octokit_ok\<lparr>pulls_createReview := (\<lambda>owner repoName n b v. Inl RequestError)\<rparr>"

definition fetch_ok :: "string \<Rightarrow> exn + Response" where
  "fetch_ok url = Inr \<lparr>ok = True, response_text = Inr ''+ return 1;''\<rparr>"

definition quoted :: "string \<Rightarrow> string" where
  "quoted s = [CHR 0x22] @ s @ [CHR 0x22]"

definition reply_ok :: string where
  \<comment> \<open>a reply of the requested shape, as JSON text\<close>
  "reply_ok =
     ''{'' @ quoted ''summary'' @ '':'' @ quoted ''Small fix'' @ '','' @
     quoted ''verdict'' @ '':'' @ quoted ''approve'' @ '','' @
     quoted ''severity'' @ '':'' @ quoted ''low'' @ '','' @
     quoted ''findings'' @ '':[],'' @
     quoted ''positives'' @ '':['' @ quoted ''tests'' @ ''],'' @
     quoted ''commentBody'' @ '':'' @ quoted ''LGTM'' @ ''}''"

definition result_ok :: json where
  \<comment> \<open>the value that \<open>reply_ok\<close> denotes\<close>
  "result_ok =
     JObject
      [(''summary'', JString ''Small fix''), (''verdict'', JString ''approve''),
       (''severity'', JString ''low''), (''findings'', JArray []),
       (''positives'', JArray [JString ''tests'']), (''commentBody'', JString ''LGTM'')]"

definition JSON_parse_sample :: "string \<Rightarrow> exn + json" where
  \<comment> \<open>\<open>JSON.parse\<close> on the texts used below: \<open>reply_ok\<close>, \<open>null\<close>, \<open>{}\<close>, and text that is not JSON\<close>
  "JSON_parse_sample s =
     (if s = reply_ok then Inr result_ok
      else if s = ''null'' then Inr JNull
      else if s = ''{}'' then Inr (JObject [])
      else Inl SyntaxError)"

definition services_reply :: "string \<Rightarrow> Services" where
  \<comment> \<open>every collaborator works and the inference service replies with the given text;
      no number occurs in the examples\<close>
  "services_reply reply =
     \<lparr>JSON_parse = JSON_parse_sample,
      Number_toString = (\<lambda>d. ''0''),
      messages_create = (\<lambda>req. Inr [TextBlock reply]),
      now_ISO = ''2024-01-02T00:00:00.000Z'',
      buildReviewPrompt = (\<lambda>p d t. ([], d)),
      comment_header = (\<lambda>t. ''Review: ''),
      comment_footer = []\<rparr>"

definition services_ok :: Services where
  "services_ok = services_reply reply_ok"

definition services_noise :: Services where
  \<comment> \<open>the reply is not JSON\<close>
  "services_noise = services_reply ''Looks fine.''"

definition services_down :: Services where
  "services_down = services_ok\<lparr>messages_create := (\<lambda>req. Inl RequestError)\<rparr>"

definition props7 :: "Octokit \<Rightarrow> ReviewPRProps" where
  "props7 octokit =
     \<lparr>pr = event7, github = GitHub octokit fetch_ok (GitHub_onMount octokit),
      onComplete = handleReviewComplete\<rparr>"

definition record_ok :: "int option \<Rightarrow> ReviewRecord" where
  \<comment> \<open>the record a run for event 7 builds from \<open>reply_ok\<close>\<close>
  "record_ok cid =
     \<lparr>prId = 7, prNumber = 42, rec_repo = ''octo/demo'', reviewedAt = ''2024-01-02T00:00:00.000Z'',
      rec_verdict = Some (JString ''approve''), commentId = cid\<rparr>"

section \<open>Unfolding rules\<close>

lemmas store_defs = isReviewed_def recordReview_def recordReview_update_def reviews_of_def
  getReviewHistory_def handlePullRequest_def handleReviewComplete_def rendered_reviews_def

lemmas github_defs = GitHub_def GitHub_onMount_def GitHub_fetchDiff_def
  GitHub_postReviewComment_def GitHub_botAlreadyCommented_def element_def

lemmas pipeline_defs = ReviewPR_def ReviewPR_publish_def call_Claude_def parseReviewResult_def
  verdictMap_def formatGitHubComment_def log_reviewed_def member_def ToString_value_def
  getReviewTier_def message_request_def threw_def Let_def

lemmas example_defs = record7_def event7_def mounted_empty_def app_fresh_def app_reviewed7_def
  app_pending7_def app_unmounted7_def app_unready7_def module_loaded_def StateManager_render_def
  StateManager_handler_def StateManager_cleanup_def octokit_ok_def octokit_commented_def
  octokit_post_fails_def fetch_ok_def result_ok_def services_reply_def services_ok_def
  services_noise_def services_down_def props7_def record_ok_def

section \<open>Facts about the store and the pending list\<close>

lemma reviews_of_recordReview:
  "reviews_of (outputs (recordReview r st)) =
     (if setOutputs_ref st then reviews_of (outputs st) @ [r] else reviews_of (outputs st))"
  by (simp add: recordReview_def recordReview_update_def reviews_of_def)

lemma refs_recordReview [simp]:
  "reviews_ref (recordReview r st) = reviews_ref st"
  "setOutputs_ref (recordReview r st) = setOutputs_ref st"
  by (simp_all add: recordReview_def)

lemma isReviewed_iff:
  "isReviewed st i \<longleftrightarrow> reviews_ref st \<and> i \<in> prId ` set (reviews_of (outputs st))"
  by (auto simp: isReviewed_def list_ex_iff)

lemma isReviewed_recordReview:
  "isReviewed st i \<Longrightarrow> isReviewed (recordReview r st) i"
  by (auto simp: isReviewed_iff reviews_of_recordReview)

lemma isReviewed_fold_recordReview:
  "isReviewed st i \<Longrightarrow> isReviewed (fold recordReview rs st) i"
  by (induction rs arbitrary: st) (simp_all add: isReviewed_recordReview)

lemma reviews_of_fold_recordReview:
  "setOutputs_ref st \<Longrightarrow>
     reviews_of (outputs (fold recordReview rs st)) = reviews_of (outputs st) @ rs"
  by (induction rs arbitrary: st) (simp_all add: reviews_of_recordReview)

lemma store_handlePullRequest [simp]: "store (handlePullRequest e a) = store a"
  by (simp add: handlePullRequest_def)

lemma store_handleReviewComplete [simp]: "store (handleReviewComplete i a) = store a"
  by (simp add: handleReviewComplete_def)

lemma isReviewed_act: "isReviewed (store a) i \<Longrightarrow> isReviewed (store (act a x)) i"
  by (cases x) (simp_all add: isReviewed_recordReview)

lemma isReviewed_foldl_act:
  "isReviewed (store a) i \<Longrightarrow> isReviewed (store (foldl act a xs)) i"
  by (induction xs arbitrary: a) (simp_all add: isReviewed_act)

section \<open>Admission\<close>

text \<open>
  C1. Admission removes duplicates and is final. \<open>handlePullRequest e\<close> returns the state
  it was given (same pending list, same set of mounted reviews, so nothing is spawned)
  whenever \<open>isReviewed\<close> holds for the event's id or an event with that id is already
  pending. Otherwise the event is appended to the pending list (and a review for it is
  mounted after those already mounted). Once \<open>isReviewed\<close> holds for an id, it still
  holds after any sequence of admissions, commits and completions, and admitting an event
  with that id after such a sequence changes nothing.
\<close>

theorem handlePullRequest_dedup:
  "(isReviewed (store a) (pr_id e) \<or> list_ex (\<lambda>pr. pr_id pr = pr_id e) (pendingPRs a)
      \<longrightarrow> handlePullRequest e a = a \<and>
          pendingPRs (handlePullRequest e a) = pendingPRs a \<and>
          rendered_reviews (handlePullRequest e a) = rendered_reviews a) \<and>
   (\<not> isReviewed (store a) (pr_id e) \<and> \<not> list_ex (\<lambda>pr. pr_id pr = pr_id e) (pendingPRs a)
      \<longrightarrow> pendingPRs (handlePullRequest e a) = pendingPRs a @ [e] \<and>
          store (handlePullRequest e a) = store a \<and>
          rendered_reviews (handlePullRequest e a) = rendered_reviews a @ [e]) \<and>
   (isReviewed (store a) (pr_id e)
      \<longrightarrow> isReviewed (store (foldl act a xs)) (pr_id e) \<and>
          handlePullRequest e (foldl act a xs) = foldl act a xs)"
proof (intro conjI impI)
  assume "isReviewed (store a) (pr_id e)"
  then show later: "isReviewed (store (foldl act a xs)) (pr_id e)"
    by (rule isReviewed_foldl_act)
  then show "handlePullRequest e (foldl act a xs) = foldl act a xs"
    by (simp add: handlePullRequest_def)
qed (auto simp: handlePullRequest_def rendered_reviews_def)

theorem handlePullRequest_dedup_witness:
  "isReviewed (store app_reviewed7) (pr_id event7) \<and>
   handlePullRequest event7 app_reviewed7 = app_reviewed7 \<and>
   handlePullRequest event7 (foldl act app_reviewed7 [Complete 7, Commit record7]) =
     foldl act app_reviewed7 [Complete 7, Commit record7] \<and>
   \<not> isReviewed (store app_fresh) (pr_id event7) \<and>
   \<not> list_ex (\<lambda>pr. pr_id pr = pr_id event7) (pendingPRs app_fresh) \<and>
   pendingPRs (handlePullRequest event7 app_fresh) = [event7] \<and>
   list_ex (\<lambda>pr. pr_id pr = pr_id event7) (pendingPRs app_pending7) \<and>
   handlePullRequest event7 app_pending7 = app_pending7"
proof -
  have r: "isReviewed (store app_reviewed7) (pr_id event7)"
    by (simp add: example_defs store_defs)
  have f: "\<not> isReviewed (store app_fresh) (pr_id event7)"
    "\<not> list_ex (\<lambda>pr. pr_id pr = pr_id event7) (pendingPRs app_fresh)"
    "pendingPRs app_fresh = []"
    by (simp_all add: example_defs store_defs)
  have p: "list_ex (\<lambda>pr. pr_id pr = pr_id event7) (pendingPRs app_pending7)"
    by (simp add: app_pending7_def)
  from r f p handlePullRequest_dedup [of app_reviewed7 event7 "[Complete 7, Commit record7]"]
    handlePullRequest_dedup [of app_fresh event7 "[]"]
    handlePullRequest_dedup [of app_pending7 event7 "[]"]
  show ?thesis by simp
qed

section \<open>The ledger\<close>

text \<open>
  Two commits of the same record on a freshly mounted store leave two entries with id 7
  in the history: \<open>recordReview\<close> appends without looking for the id.
\<close>

theorem recordReview_duplicates:
  "\<not> length (filter (\<lambda>r. prId r = 7)
        (getReviewHistory (recordReview record7 (recordReview record7 mounted_empty)))) \<le> 1"
  by (simp add: example_defs store_defs)

text \<open>
  C2 (amended). On a store whose setter is registered, a sequence of \<open>recordReview\<close> calls
  appends every record, in call order, to the records already there. The store therefore
  holds at most one record per id afterwards exactly when it did before, the committed
  ids are pairwise different, and none of them was already present. A second commit for
  an id already present adds a second entry.
\<close>

theorem recordReview_unique_iff:
  "setOutputs_ref st \<longrightarrow>
     reviews_of (outputs (fold recordReview rs st)) = reviews_of (outputs st) @ rs \<and>
     (distinct (map prId (reviews_of (outputs (fold recordReview rs st)))) \<longleftrightarrow>
        distinct (map prId (reviews_of (outputs st))) \<and> distinct (map prId rs) \<and>
        prId ` set (reviews_of (outputs st)) \<inter> prId ` set rs = {})"
  by (auto simp: reviews_of_fold_recordReview)

theorem recordReview_unique_iff_witness:
  "setOutputs_ref mounted_empty \<and>
   reviews_of (outputs (fold recordReview [record7, record7\<lparr>prId := 8\<rparr>] mounted_empty)) =
     [record7, record7\<lparr>prId := 8\<rparr>] \<and>
   distinct (map prId
     (reviews_of (outputs (fold recordReview [record7, record7\<lparr>prId := 8\<rparr>] mounted_empty)))) \<and>
   \<not> distinct (map prId (reviews_of (outputs (fold recordReview [record7, record7] mounted_empty))))"
proof -
  have m: "setOutputs_ref mounted_empty" "reviews_of (outputs mounted_empty) = []"
    by (simp_all add: example_defs store_defs)
  with recordReview_unique_iff [of mounted_empty "[record7, record7\<lparr>prId := 8\<rparr>]"]
    recordReview_unique_iff [of mounted_empty "[record7, record7]"]
  show ?thesis by (simp add: record7_def)
qed

text \<open>
  C10. \<open>recordReview\<close> only appends. The update it hands to the setter turns every
  previous value of the store into the same records, in the same order, followed by the
  new record, and that is what a call does to a store whose setter is registered. In
  every state of the module the records present before a call are a prefix of the records
  present after it (without a registered setter the call changes nothing). Hence once
  \<open>isReviewed\<close> holds for an id it holds after any further sequence of \<open>recordReview\<close>
  calls.
\<close>

theorem recordReview_monotone:
  "reviews_of (recordReview_update r prev) = reviews_of prev @ [r] \<and>
   (setOutputs_ref st \<longrightarrow>
      reviews_of (outputs (recordReview r st)) = reviews_of (outputs st) @ [r]) \<and>
   prefix (reviews_of (outputs st)) (reviews_of (outputs (recordReview r st))) \<and>
   (isReviewed st i \<longrightarrow> isReviewed (fold recordReview rs st) i)"
proof -
  have "reviews_of (recordReview_update r prev) = reviews_of prev @ [r]"
    by (simp add: recordReview_update_def reviews_of_def)
  then show ?thesis
    by (simp add: reviews_of_recordReview isReviewed_fold_recordReview)
qed

theorem recordReview_monotone_witness:
  "setOutputs_ref (recordReview record7 mounted_empty) \<and>
   isReviewed (recordReview record7 mounted_empty) 7 \<and>
   reviews_of (outputs (recordReview (record7\<lparr>prId := 8\<rparr>) (recordReview record7 mounted_empty))) =
     [record7, record7\<lparr>prId := 8\<rparr>] \<and>
   isReviewed (fold recordReview [record7\<lparr>prId := 8\<rparr>, record7\<lparr>prId := 9\<rparr>]
     (recordReview record7 mounted_empty)) 7"
proof -
  have h: "setOutputs_ref (recordReview record7 mounted_empty)"
    "isReviewed (recordReview record7 mounted_empty) 7"
    "reviews_of (outputs (recordReview record7 mounted_empty)) = [record7]"
    by (simp_all add: example_defs store_defs)
  with recordReview_monotone [of "record7\<lparr>prId := 8\<rparr>" None "recordReview record7 mounted_empty" 7
      "[record7\<lparr>prId := 8\<rparr>, record7\<lparr>prId := 9\<rparr>]"]
  show ?thesis by simp
qed

text \<open>
  C9. While \<open>_reviews\<close> is null (the module has just been loaded, or \<open>StateManager\<close> has
  been cleaned up), \<open>isReviewed\<close> answers false for every id and \<open>getReviewHistory\<close>
  returns the empty list, whatever the persisted records are; both are plain returns.
  In that window admission depends on the pending list alone, so an event whose id is
  already recorded is admitted.
\<close>

theorem uninitialised_store:
  "(\<not> reviews_ref st \<longrightarrow> isReviewed st i = False \<and> getReviewHistory st = []) \<and>
   \<not> reviews_ref (module_loaded prev) \<and> \<not> reviews_ref (StateManager_cleanup st) \<and>
   (\<not> reviews_ref (store a) \<and> \<not> list_ex (\<lambda>pr. pr_id pr = pr_id e) (pendingPRs a)
      \<longrightarrow> pendingPRs (handlePullRequest e a) = pendingPRs a @ [e])"
  by (simp add: store_defs module_loaded_def StateManager_cleanup_def)

theorem uninitialised_store_witness:
  "\<not> reviews_ref (store app_unmounted7) \<and>
   record7 \<in> set (reviews_of (outputs (store app_unmounted7))) \<and> prId record7 = pr_id event7 \<and>
   isReviewed (store app_unmounted7) (pr_id event7) = False \<and>
   getReviewHistory (store app_unmounted7) = [] \<and>
   pendingPRs (handlePullRequest event7 app_unmounted7) = [event7]"
proof -
  have u: "\<not> reviews_ref (store app_unmounted7)"
    "\<not> list_ex (\<lambda>pr. pr_id pr = pr_id event7) (pendingPRs app_unmounted7)"
    "pendingPRs app_unmounted7 = []"
    "record7 \<in> set (reviews_of (outputs (store app_unmounted7)))" "prId record7 = pr_id event7"
    by (simp_all add: example_defs store_defs)
  with uninitialised_store [of "store app_unmounted7" "pr_id event7" "None" app_unmounted7 event7]
  show ?thesis by simp
qed

section \<open>One review\<close>

lemma cleaned_examples:
  "cleaned reply_ok = reply_ok" "cleaned ''null'' = ''null''" "cleaned ''{}'' = ''{}''"
  "cleaned ''Looks fine.'' = ''Looks fine.''"
  by (simp_all add: cleaned_def reply_ok_def quoted_def trim_def whitespace_def skip_newline_def)

lemma JSON_parse_sample_examples:
  "JSON_parse_sample reply_ok = Inr result_ok" "JSON_parse_sample ''null'' = Inr JNull"
  "JSON_parse_sample ''{}'' = Inr (JObject [])" "JSON_parse_sample ''Looks fine.'' = Inl SyntaxError"
  by (simp_all add: JSON_parse_sample_def) (simp_all add: reply_ok_def quoted_def)

lemmas run_defs = example_defs github_defs pipeline_defs store_defs cleaned_examples
  JSON_parse_sample_examples



lemma ReviewPR_publish_commit:
  assumes "Call_recordReview r \<in> set (fst (ReviewPR_publish sv props tier reviewResult a))"
  shows "\<exists>b v c. fst (ReviewPR_publish sv props tier reviewResult a) =
            [Call_postReviewComment b v, Call_recordReview r, c] \<and>
          (c = Call_onComplete (pr_id (pr props)) \<or> (\<exists>err. c = Thrown err)) \<and>
          prId r = pr_id (pr props) \<and>
          commentId r =
            (if postReviewComment (github props) (repo (pr props)) (number (pr props)) b v > 0
             then Some (postReviewComment (github props) (repo (pr props)) (number (pr props)) b v)
             else None) \<and>
          snd (ReviewPR_publish sv props tier reviewResult a) =
            (if c = Call_onComplete (pr_id (pr props))
             then onComplete props (pr_id (pr props)) (a\<lparr>store := recordReview r (store a)\<rparr>)
             else a\<lparr>store := recordReview r (store a)\<rparr>)"
proof -
  from assms obtain raw b verdict' v where steps:
    "member reviewResult ''commentBody'' = Inr raw"
    "formatGitHubComment sv (number (pr props)) tier raw = Inr b"
    "member reviewResult ''verdict'' = Inr verdict'"
    "verdictMap (Number_toString sv) verdict' = Inr v"
    by (auto simp: ReviewPR_publish_def Let_def split: sum.splits)
  show ?thesis
  proof (cases "log_reviewed (Number_toString sv) reviewResult")
    case (Inl err)
    with steps assms show ?thesis
      by (intro exI [of _ b] exI [of _ v] exI [of _ "Thrown err"])
        (auto simp: ReviewPR_publish_def Let_def)
  next
    case (Inr logged)
    with steps assms show ?thesis
      by (intro exI [of _ b] exI [of _ v] exI [of _ "Call_onComplete (pr_id (pr props))"])
        (auto simp: ReviewPR_publish_def Let_def)
  qed
qed

lemma ReviewPR_commit_path:
  assumes "Call_recordReview r \<in> set (fst (ReviewPR sv props a))"
  shows "\<exists>b v c. fst (ReviewPR sv props a) =
            [Call_botAlreadyCommented, Call_fetchDiff, Call_messages_create,
             Call_postReviewComment b v, Call_recordReview r, c] \<and>
          (c = Call_onComplete (pr_id (pr props)) \<or> (\<exists>err. c = Thrown err)) \<and>
          prId r = pr_id (pr props) \<and>
          commentId r =
            (if postReviewComment (github props) (repo (pr props)) (number (pr props)) b v > 0
             then Some (postReviewComment (github props) (repo (pr props)) (number (pr props)) b v)
             else None) \<and>
          snd (ReviewPR sv props a) =
            (if c = Call_onComplete (pr_id (pr props))
             then onComplete props (pr_id (pr props)) (a\<lparr>store := recordReview r (store a)\<rparr>)
             else a\<lparr>store := recordReview r (store a)\<rparr>)"
proof -
  from assms obtain tier reviewResult where
    run: "ReviewPR sv props a =
       ([Call_botAlreadyCommented, Call_fetchDiff, Call_messages_create] @
          fst (ReviewPR_publish sv props tier reviewResult a),
        snd (ReviewPR_publish sv props tier reviewResult a))"
    and commit: "Call_recordReview r \<in> set (fst (ReviewPR_publish sv props tier reviewResult a))"
    by (auto simp: ReviewPR_def Let_def split_beta split: if_splits sum.splits)
  from ReviewPR_publish_commit [OF commit] run show ?thesis
    by auto
qed

text \<open>
  The bot has already reviewed pull request 42: the run makes two calls, the check and
  \<open>onComplete\<close>, and the store is left as it was, with no record for id 7.
\<close>

theorem already_commented_no_commit:
  "botAlreadyCommented (github (props7 octokit_commented)) (repo event7) (number event7) \<and>
   fst (ReviewPR services_ok (props7 octokit_commented) app_pending7) =
     [Call_botAlreadyCommented, Call_onComplete 7] \<and>
   store (snd (ReviewPR services_ok (props7 octokit_commented) app_pending7)) = store app_pending7 \<and>
   getReviewHistory (store (snd (ReviewPR services_ok (props7 octokit_commented) app_pending7))) = [] \<and>
   \<not> isReviewed (store (snd (ReviewPR services_ok (props7 octokit_commented) app_pending7))) 7"
  by (simp add: run_defs)

text \<open>
  C4 (amended). When the check before fetching (\<open>botAlreadyCommented\<close>) reports an
  existing review, the run skips fetching, generating and publishing and also the
  commit: it calls \<open>onComplete\<close> for the event's id and nothing else. With the
  application's \<open>handleReviewComplete\<close> as \<open>onComplete\<close> the store is unchanged (no record is
  written) and the event leaves the pending list.
\<close>

theorem already_commented_skips:
  "botAlreadyCommented (github props) (repo (pr props)) (number (pr props)) \<longrightarrow>
     ReviewPR sv props a =
       ([Call_botAlreadyCommented, Call_onComplete (pr_id (pr props))],
        onComplete props (pr_id (pr props)) a) \<and>
     (onComplete props = handleReviewComplete \<longrightarrow>
        store (snd (ReviewPR sv props a)) = store a \<and>
        pendingPRs (snd (ReviewPR sv props a)) =
          filter (\<lambda>p. pr_id p \<noteq> pr_id (pr props)) (pendingPRs a))"
  by (simp add: ReviewPR_def handleReviewComplete_def Let_def)

theorem already_commented_skips_witness:
  "botAlreadyCommented (github (props7 octokit_commented)) (repo (pr (props7 octokit_commented)))
     (number (pr (props7 octokit_commented))) \<and>
   onComplete (props7 octokit_commented) = handleReviewComplete \<and>
   ReviewPR services_ok (props7 octokit_commented) app_pending7 =
     ([Call_botAlreadyCommented, Call_onComplete 7], \<lparr>store = mounted_empty, pendingPRs = []\<rparr>)"
proof -
  have h: "botAlreadyCommented (github (props7 octokit_commented))
      (repo (pr (props7 octokit_commented))) (number (pr (props7 octokit_commented)))"
    "onComplete (props7 octokit_commented) = handleReviewComplete"
    by (simp_all add: example_defs github_defs)
  have e: "pr_id (pr (props7 octokit_commented)) = 7"
    "handleReviewComplete 7 app_pending7 = \<lparr>store = mounted_empty, pendingPRs = []\<rparr>"
    by (simp_all add: props7_def event7_def app_pending7_def handleReviewComplete_def)
  from h e already_commented_skips [of "props7 octokit_commented" services_ok app_pending7]
  show ?thesis by simp
qed




text \<open>
  C7. A failed publish does not stop the run. In every run that posts the review and gets
  the failure value \<open>-1\<close> back, the next call is \<open>recordReview\<close>, with a record for the
  event's id that carries no comment id, and the state the run leaves has passed through
  that \<open>recordReview\<close>. On a mounted store, with the application's \<open>handleReviewComplete\<close>,
  the record is in the history afterwards and \<open>isReviewed\<close> holds for the id.
  \<open>postReviewComment\<close> returns \<open>-1\<close> whenever the Octokit call throws. (What follows the
  commit is \<open>onComplete\<close>, or an exception of the log line when the reply carries no string
  verdict; the record is stored in both cases.)
\<close>

theorem publish_failure_nonfatal:
  "(Call_postReviewComment b v \<in> set (fst (ReviewPR sv props a)) \<and>
    postReviewComment (github props) (repo (pr props)) (number (pr props)) b v = - 1 \<longrightarrow>
      (\<exists>r c. fst (ReviewPR sv props a) =
              [Call_botAlreadyCommented, Call_fetchDiff, Call_messages_create,
               Call_postReviewComment b v, Call_recordReview r, c] \<and>
            (c = Call_onComplete (pr_id (pr props)) \<or> (\<exists>err. c = Thrown err)) \<and>
            prId r = pr_id (pr props) \<and> commentId r = None \<and>
            snd (ReviewPR sv props a) =
              (if c = Call_onComplete (pr_id (pr props))
               then onComplete props (pr_id (pr props)) (a\<lparr>store := recordReview r (store a)\<rparr>)
               else a\<lparr>store := recordReview r (store a)\<rparr>) \<and>
            (setOutputs_ref (store a) \<and> reviews_ref (store a) \<and>
             onComplete props = handleReviewComplete \<longrightarrow>
               r \<in> set (getReviewHistory (store (snd (ReviewPR sv props a)))) \<and>
               isReviewed (store (snd (ReviewPR sv props a))) (pr_id (pr props))))) \<and>
   (pulls_createReview octokit (element (split_on (CHR ''/'') repo') 0)
        (element (split_on (CHR ''/'') repo') 1) n body' v' = Inl err \<longrightarrow>
      GitHub_postReviewComment octokit repo' n body' v' = - 1)"
proof (intro conjI impI)
  assume h: "Call_postReviewComment b v \<in> set (fst (ReviewPR sv props a)) \<and>
    postReviewComment (github props) (repo (pr props)) (number (pr props)) b v = - 1"
  then obtain tier reviewResult where
    run: "ReviewPR sv props a =
       ([Call_botAlreadyCommented, Call_fetchDiff, Call_messages_create] @
          fst (ReviewPR_publish sv props tier reviewResult a),
        snd (ReviewPR_publish sv props tier reviewResult a))"
    and post: "Call_postReviewComment b v \<in> set (fst (ReviewPR_publish sv props tier reviewResult a))"
    by (auto simp: ReviewPR_def Let_def split_beta split: if_splits sum.splits)
  from post obtain r where "Call_recordReview r \<in> set (fst (ReviewPR_publish sv props tier reviewResult a))"
    by (auto simp: ReviewPR_publish_def Let_def split: sum.splits)
  with run have "Call_recordReview r \<in> set (fst (ReviewPR sv props a))"
    by simp
  from ReviewPR_commit_path [OF this] obtain b' v' c where path:
    "fst (ReviewPR sv props a) =
       [Call_botAlreadyCommented, Call_fetchDiff, Call_messages_create,
        Call_postReviewComment b' v', Call_recordReview r, c]"
    "c = Call_onComplete (pr_id (pr props)) \<or> (\<exists>err. c = Thrown err)"
    "prId r = pr_id (pr props)"
    "commentId r =
       (if postReviewComment (github props) (repo (pr props)) (number (pr props)) b' v' > 0
        then Some (postReviewComment (github props) (repo (pr props)) (number (pr props)) b' v')
        else None)"
    "snd (ReviewPR sv props a) =
       (if c = Call_onComplete (pr_id (pr props))
        then onComplete props (pr_id (pr props)) (a\<lparr>store := recordReview r (store a)\<rparr>)
        else a\<lparr>store := recordReview r (store a)\<rparr>)"
    by blast
  from h path(1,2) have same: "b' = b" "v' = v"
    by auto
  with h path(4) have none: "commentId r = None"
    by simp
  have "r \<in> set (getReviewHistory (store (snd (ReviewPR sv props a)))) \<and>
        isReviewed (store (snd (ReviewPR sv props a))) (pr_id (pr props))"
    if "setOutputs_ref (store a) \<and> reviews_ref (store a) \<and> onComplete props = handleReviewComplete"
    using that path(3,5)
    by (auto simp: getReviewHistory_def isReviewed_def list_ex_iff reviews_of_recordReview
        handleReviewComplete_def)
  with path same none show "\<exists>r c. fst (ReviewPR sv props a) =
              [Call_botAlreadyCommented, Call_fetchDiff, Call_messages_create,
               Call_postReviewComment b v, Call_recordReview r, c] \<and>
            (c = Call_onComplete (pr_id (pr props)) \<or> (\<exists>err. c = Thrown err)) \<and>
            prId r = pr_id (pr props) \<and> commentId r = None \<and>
            snd (ReviewPR sv props a) =
              (if c = Call_onComplete (pr_id (pr props))
               then onComplete props (pr_id (pr props)) (a\<lparr>store := recordReview r (store a)\<rparr>)
               else a\<lparr>store := recordReview r (store a)\<rparr>) \<and>
            (setOutputs_ref (store a) \<and> reviews_ref (store a) \<and>
             onComplete props = handleReviewComplete \<longrightarrow>
               r \<in> set (getReviewHistory (store (snd (ReviewPR sv props a)))) \<and>
               isReviewed (store (snd (ReviewPR sv props a))) (pr_id (pr props)))"
    by blast
next
  assume "pulls_createReview octokit (element (split_on (CHR ''/'') repo') 0)
        (element (split_on (CHR ''/'') repo') 1) n body' v' = Inl err"
  then show "GitHub_postReviewComment octokit repo' n body' v' = - 1"
    by (simp add: GitHub_postReviewComment_def Let_def)
qed

theorem publish_failure_nonfatal_witness:
  "Call_postReviewComment ''Review: LGTM'' (Event APPROVE)
     \<in> set (fst (ReviewPR services_ok (props7 octokit_post_fails) app_pending7)) \<and>
   postReviewComment (github (props7 octokit_post_fails)) (repo (pr (props7 octokit_post_fails)))
     (number (pr (props7 octokit_post_fails))) ''Review: LGTM'' (Event APPROVE) = - 1 \<and>
   setOutputs_ref (store app_pending7) \<and> reviews_ref (store app_pending7) \<and>
   onComplete (props7 octokit_post_fails) = handleReviewComplete \<and>
   isReviewed (store (snd (ReviewPR services_ok (props7 octokit_post_fails) app_pending7)))
     (pr_id (pr (props7 octokit_post_fails))) \<and>
   Call_postReviewComment ''Review: undefined'' (Not_an_event ''undefined'')
     \<in> set (fst (ReviewPR (services_reply ''{}'') (props7 octokit_post_fails) app_pending7)) \<and>
   threw (fst (ReviewPR (services_reply ''{}'') (props7 octokit_post_fails) app_pending7)) \<and>
   isReviewed (store (snd (ReviewPR (services_reply ''{}'') (props7 octokit_post_fails) app_pending7)))
     (pr_id (pr (props7 octokit_post_fails))) \<and>
   pulls_createReview octokit_post_fails (element (split_on (CHR ''/'') ''octo/demo'') 0)
     (element (split_on (CHR ''/'') ''octo/demo'') 1) 42 ''Review: LGTM'' (Event APPROVE) =
     Inl RequestError \<and>
   GitHub_postReviewComment octokit_post_fails ''octo/demo'' 42 ''Review: LGTM'' (Event APPROVE) = - 1"
proof -
  have h: "Call_postReviewComment ''Review: LGTM'' (Event APPROVE)
     \<in> set (fst (ReviewPR services_ok (props7 octokit_post_fails) app_pending7))"
    "Call_postReviewComment ''Review: undefined'' (Not_an_event ''undefined'')
     \<in> set (fst (ReviewPR (services_reply ''{}'') (props7 octokit_post_fails) app_pending7))"
    "threw (fst (ReviewPR (services_reply ''{}'') (props7 octokit_post_fails) app_pending7))"
    by (simp_all add: run_defs)
  have p: "postReviewComment (github (props7 octokit_post_fails)) (repo (pr (props7 octokit_post_fails)))
     (number (pr (props7 octokit_post_fails))) b v = - 1" for b v
    by (simp add: example_defs github_defs)
  have m: "setOutputs_ref (store app_pending7)" "reviews_ref (store app_pending7)"
    "onComplete (props7 octokit_post_fails) = handleReviewComplete"
    by (simp_all add: example_defs)
  have c: "pulls_createReview octokit_post_fails (element (split_on (CHR ''/'') ''octo/demo'') 0)
     (element (split_on (CHR ''/'') ''octo/demo'') 1) 42 ''Review: LGTM'' (Event APPROVE) =
     Inl RequestError"
    by (simp add: octokit_post_fails_def octokit_ok_def)
  from h p m c
    publish_failure_nonfatal [of "''Review: LGTM''" "Event APPROVE" services_ok
      "props7 octokit_post_fails" app_pending7 octokit_post_fails "''octo/demo''" 42
      "''Review: LGTM''" "Event APPROVE" RequestError]
    publish_failure_nonfatal [of "''Review: undefined''" "Not_an_event ''undefined''"
      "services_reply ''{}''" "props7 octokit_post_fails" app_pending7 octokit_post_fails
      "''octo/demo''" 42 "''Review: LGTM''" "Event APPROVE" RequestError]
  show ?thesis by blast
qed

lemma parseReviewResult_returns:
  "\<exists>v. parseReviewResult P raw pr' = Inr v"
  "P (cleaned raw) = Inl err \<Longrightarrow> parseReviewResult P raw pr' = Inr (fallback raw pr')"
  "P (cleaned raw) = Inr parsed \<Longrightarrow> parseReviewResult P raw pr' = Inr parsed"
  by (simp_all add: parseReviewResult_def split: sum.split)

lemma fallback_shape:
  "is_ReviewResult (fallback raw pr')"
  "member (fallback raw pr') ''verdict'' = Inr (Some (JString ''comment''))"
  "member (fallback raw pr') ''severity'' = Inr (Some (JString ''low''))"
  "member (fallback raw pr') ''findings'' = Inr (Some (JArray []))"
  "\<exists>s. member (fallback raw pr') ''commentBody'' = Inr (Some (JString s)) \<and> suffix raw s"
  by (simp_all add: fallback_def is_ReviewResult_def is_string_def one_of_def member_def suffix_def)

lemma call_Claude_text:
  "messages_create sv (message_request tier sys usr) = Inr (TextBlock t # blocks) \<Longrightarrow>
     call_Claude sv pr' tier sys usr = parseReviewResult (JSON_parse sv) t pr'"
  by (simp add: call_Claude_def)

lemma other_replies:
  "Call_recordReview ((record_ok (Some 900))\<lparr>rec_verdict := Some (JString ''comment'')\<rparr>)
     \<in> set (fst (ReviewPR services_noise (props7 octokit_ok) app_pending7))"
  "last (fst (ReviewPR services_noise (props7 octokit_ok) app_pending7)) = Call_onComplete 7"
  "ReviewPR services_down (props7 octokit_ok) app_pending7 =
     ([Call_botAlreadyCommented, Call_fetchDiff, Call_messages_create, Call_onComplete 7], app_fresh)"
  by (simp_all add: run_defs fallback_def)

text \<open>
  C8. The inference call succeeds and the reply is the text \<open>null\<close>, which is JSON but
  not an object. \<open>parseReviewResult\<close> returns without throwing, and what it returns is the
  parsed \<open>null\<close>, which is not a \<open>ReviewResult\<close>. The run then throws when it reads
  \<open>commentBody\<close>: nothing is posted or recorded, \<open>onComplete\<close> is not called, and event 7
  stays in the pending list. With the reply \<open>{}\<close> the run posts and records, then throws
  before \<open>onComplete\<close>, and the event stays pending as well.
\<close>

theorem parse_wrong_shape:
  "parseReviewResult (JSON_parse (services_reply ''null'')) ''null'' event7 = Inr JNull \<and>
   \<not> is_ReviewResult JNull \<and>
   ReviewPR (services_reply ''null'') (props7 octokit_ok) app_pending7 =
     ([Call_botAlreadyCommented, Call_fetchDiff, Call_messages_create, Thrown TypeError],
      app_pending7) \<and>
   parseReviewResult (JSON_parse (services_reply ''{}'')) ''{}'' event7 = Inr (JObject []) \<and>
   \<not> is_ReviewResult (JObject []) \<and>
   fst (ReviewPR (services_reply ''{}'') (props7 octokit_ok) app_pending7) =
     [Call_botAlreadyCommented, Call_fetchDiff, Call_messages_create,
      Call_postReviewComment ''Review: undefined'' (Not_an_event ''undefined''),
      Call_recordReview ((record_ok (Some 900))\<lparr>rec_verdict := None\<rparr>),
      Thrown TypeError] \<and>
   pendingPRs (snd (ReviewPR (services_reply ''{}'') (props7 octokit_ok) app_pending7)) = [event7]"
  by (simp add: run_defs is_ReviewResult_def is_string_def one_of_def)

section \<open>Tier classification\<close>

text \<open>
  C3. \<open>getReviewTier\<close> is a function of its argument alone, defined on every integer
  (so in particular on every non-negative one), with thresholds 50 and 300: it yields
  \<open>quick\<close> up to 50, \<open>standard\<close> above 50 and up to 300, and \<open>deep\<close> above 300.
  At the boundaries 50, 51, 300 and 301 it yields quick, standard, standard and deep.
  Equal inputs give equal outputs.
\<close>

theorem getReviewTier_thresholds:
  "(m \<le> 50 \<longrightarrow> getReviewTier m = quick) \<and>
   (50 < m \<and> m \<le> 300 \<longrightarrow> getReviewTier m = standard) \<and>
   (300 < m \<longrightarrow> getReviewTier m = deep) \<and>
   getReviewTier 50 = quick \<and> getReviewTier 51 = standard \<and>
   getReviewTier 300 = standard \<and> getReviewTier 301 = deep \<and>
   (m = n \<longrightarrow> getReviewTier m = getReviewTier n)"
  by (simp add: getReviewTier_def)

theorem getReviewTier_thresholds_witness:
  "getReviewTier 0 = quick \<and> getReviewTier 120 = standard \<and> getReviewTier 5000 = deep"
  using getReviewTier_thresholds [of 0 0] getReviewTier_thresholds [of 120 120]
    getReviewTier_thresholds [of 5000 5000]
  by simp

end
